theory Spec2Isabelle
  imports Complex_Main
begin

section \<open>The Von Mises-Fisher distribution of mcplates\<close>

text \<open>
  A shallow embedding of \<^verbatim>\<open>mcplates/von_mises_fisher.py\<close>. The floating-point numbers
  of numpy and theano are modelled by the real numbers, so every statement below is about
  the exact arithmetic the source approximates. One- and two-dimensional arrays are lists
  and lists of rows.
\<close>

subsection \<open>Module constants\<close>

definition d2r :: real where
  "d2r = pi / 180"

definition r2d :: real where
  "r2d = 180 / pi"

definition eps :: real where
  "eps = 1 / 1000000"

subsection \<open>The numpy operations the module uses\<close>

text \<open>
  \<open>vdot\<close> is \<^verbatim>\<open>np.dot\<close> on two vectors, \<open>np_dot\<close> is \<^verbatim>\<open>np.dot\<close> on two matrices and
  \<open>np_dot_vec\<close> is \<^verbatim>\<open>dot\<close> of a matrix with a vector. The module only multiplies a
  3x3 matrix with a 3xn matrix and an nx3 matrix with a vector of three components, so
  the shape error of numpy is never reached and is not part of the model.
\<close>

definition vdot :: "real list \<Rightarrow> real list \<Rightarrow> real" where
  "vdot u v = sum_list (map2 (*) u v)"

definition ncols :: "real list list \<Rightarrow> nat" where
  "ncols M = (case M of [] \<Rightarrow> 0 | r # _ \<Rightarrow> length r)"

definition column :: "real list list \<Rightarrow> nat \<Rightarrow> real list" where
  "column M j = map (\<lambda>r. r ! j) M"

definition np_transpose :: "real list list \<Rightarrow> real list list" where
  "np_transpose M = map (column M) [0..<ncols M]"

definition np_dot :: "real list list \<Rightarrow> real list list \<Rightarrow> real list list" where
  "np_dot A B = map (\<lambda>r. map (\<lambda>j. vdot r (column B j)) [0..<ncols B]) A"

definition np_dot_vec :: "real list list \<Rightarrow> real list \<Rightarrow> real list" where
  "np_dot_vec A v = map (\<lambda>r. vdot r v) A"

subsection \<open>The Euler rotation matrix\<close>

definition construct_euler_rotation_matrix :: "real \<Rightarrow> real \<Rightarrow> real \<Rightarrow> real list list" where
  "construct_euler_rotation_matrix alpha beta gamma =
     (let rot_alpha = [[cos alpha, - sin alpha, 0],
                       [sin alpha, cos alpha, 0],
                       [0, 0, 1]];
          rot_beta = [[cos beta, 0, sin beta],
                      [0, 1, 0],
                      [- sin beta, 0, cos beta]];
          rot_gamma = [[cos gamma, - sin gamma, 0],
                       [sin gamma, cos gamma, 0],
                       [0, 0, 1]];
          rot = np_dot rot_gamma (np_dot rot_beta rot_alpha)
      in rot)"

text \<open>
  The specification's side of the comparison: the standard rotations about the z and the
  y axis, and the product of 3x3 matrices given entry by entry as the sum over the inner
  index.
\<close>

definition Rz :: "real \<Rightarrow> real list list" where
  "Rz t = [[cos t, - sin t, 0], [sin t, cos t, 0], [0, 0, 1]]"

definition Ry :: "real \<Rightarrow> real list list" where
  "Ry t = [[cos t, 0, sin t], [0, 1, 0], [- sin t, 0, cos t]]"

definition matmul3 :: "real list list \<Rightarrow> real list list \<Rightarrow> real list list" where
  "matmul3 A B = map (\<lambda>i. map (\<lambda>j. \<Sum>k<3. A ! i ! k * B ! k ! j) [0..<3]) [0..<3]"

subsection \<open>Errors and the symbolic comparison of theano\<close>

datatype py_error = AssertionError | TypeError | ValueError

text \<open>
  \<^verbatim>\<open>theano.tensor.ge(a, b)\<close> compares nothing when it is called: it builds a node of the
  expression graph, a \<^verbatim>\<open>TensorVariable\<close>. The node has a value once the graph is
  evaluated (\<open>eval_variable\<close>, what \<^verbatim>\<open>switch\<close> sees). Python's \<^verbatim>\<open>assert\<close> does not
  evaluate the graph, it takes the truth value of the object (\<open>truth_value\<close>): a
  \<^verbatim>\<open>TensorVariable\<close> made by a call of \<^verbatim>\<open>theano.tensor.ge\<close> keeps the class default
  \<^verbatim>\<open>_is_nonzero = True\<close>, and its \<^verbatim>\<open>__bool__\<close> returns \<^verbatim>\<open>True\<close>.
\<close>

datatype tensor_variable = Ge real real

definition tensor_ge :: "real \<Rightarrow> real \<Rightarrow> tensor_variable" where
  "tensor_ge a b = Ge a b"

fun eval_variable :: "tensor_variable \<Rightarrow> bool" where
  "eval_variable (Ge a b) = (a \<ge> b)"

fun truth_value :: "tensor_variable \<Rightarrow> bool" where
  "truth_value (Ge a b) = True"

subsection \<open>The distribution object and its constructor\<close>

record VonMisesFisher =
  lon_colat :: "real \<times> real"
  mu :: "real list"
  kappa :: real
  median :: "real \<times> real"
  mode :: "real \<times> real"
  mean :: "real \<times> real"

definition init :: "real \<times> real \<Rightarrow> real \<Rightarrow> py_error + VonMisesFisher" where
  "init lon_colat_arg kappa_arg =
     (if \<not> truth_value (tensor_ge kappa_arg 0) then Inl AssertionError
      else
        let lon = fst lon_colat_arg * d2r;
            colat = snd lon_colat_arg * d2r
        in Inr \<lparr>lon_colat = lon_colat_arg,
                 mu = [sin colat * cos lon, sin colat * sin lon, cos colat],
                 kappa = kappa_arg,
                 median = lon_colat_arg, mode = lon_colat_arg, mean = lon_colat_arg\<rparr>)"

subsection \<open>Sampling\<close>

text \<open>
  The process-wide random source is an explicit state: the sequence of standard uniform
  variates it produces and the number of variates drawn so far.
  \<^verbatim>\<open>st.uniform.rvs(loc, scale, size)\<close> draws \<open>size\<close> of them (one when \<open>size\<close> is
  \<^verbatim>\<open>None\<close>, where scipy returns a scalar that \<^verbatim>\<open>np.vstack\<close> then turns into a row of
  one entry), scales them and advances the state.
\<close>

record rng =
  draws :: "nat \<Rightarrow> real"
  pos :: nat

definition uniform_rvs :: "real \<Rightarrow> real \<Rightarrow> nat option \<Rightarrow> rng \<Rightarrow> real list \<times> rng" where
  "uniform_rvs loc scale size_arg g =
     (let n = (case size_arg of None \<Rightarrow> 1 | Some n \<Rightarrow> n)
      in (map (\<lambda>i. loc + scale * draws g (pos g + i)) [0..<n], g\<lparr>pos := pos g + n\<rparr>))"

text \<open>\<^verbatim>\<open>np.arctan2\<close>, the angle of the point \<open>(x, y)\<close> in \<open>(-\<pi>, \<pi>]\<close>.\<close>

definition arctan2 :: "real \<Rightarrow> real \<Rightarrow> real" where
  "arctan2 y x =
     (if x > 0 then arctan (y / x)
      else if x < 0 then (if y \<ge> 0 then arctan (y / x) + pi else arctan (y / x) - pi)
      else if y > 0 then pi / 2
      else if y < 0 then - pi / 2
      else 0)"

text \<open>
  \<^verbatim>\<open>np.fromiter(it, dtype, count)\<close> reads \<open>count\<close> items. Its \<open>count\<close> must be an
  integer: \<^verbatim>\<open>None\<close> is a \<^verbatim>\<open>TypeError\<close>, and an iterator shorter than \<open>count\<close> is a
  \<^verbatim>\<open>ValueError\<close>.
\<close>

definition fromiter :: "real list \<Rightarrow> nat option \<Rightarrow> py_error + real list" where
  "fromiter it count =
     (case count of
        None \<Rightarrow> Inl TypeError
      | Some n \<Rightarrow> if length it < n then Inl ValueError else Inr (take n it))"

text \<open>
  The samples around the z axis, \<^verbatim>\<open>unrotated_samples = np.vstack([x, y, z])\<close>, from the
  draws \<open>zeta\<close> and \<open>phi\<close> of the generator.
\<close>

definition unrotated_samples :: "real \<Rightarrow> real list \<Rightarrow> real list \<Rightarrow> real list list" where
  "unrotated_samples kappa_v zeta phi =
     (let z = (if kappa_v < eps then map (\<lambda>u. 2 * u - 1) zeta
               else map (\<lambda>u. 1 + 1 / kappa_v * ln (u + (1 - u) * exp (- 2 * kappa_v))) zeta);
          x = map2 (\<lambda>z p. sqrt (1 - z * z) * cos p) z phi;
          y = map2 (\<lambda>z p. sqrt (1 - z * z) * sin p) z phi
      in [x, y, z])"

definition cartesian_sample_generator ::
    "real list list \<Rightarrow> real \<Rightarrow> nat option \<Rightarrow> rng \<Rightarrow> real list list \<times> rng" where
  "cartesian_sample_generator rotation_matrix kappa_v size_arg g =
     (let (zeta, g1) = uniform_rvs 0 1 size_arg g;
          (phi, g2) = uniform_rvs 0 (2 * pi) size_arg g1;
          samples = np_transpose (np_dot rotation_matrix (unrotated_samples kappa_v zeta phi))
      in (samples, g2))"

text \<open>
  \<^verbatim>\<open>draw_values\<close> resolves the parameters to numbers; the parameters of the model are
  numbers already, so the conditioning point plays no part and is left out.
\<close>

definition draw_values :: "VonMisesFisher \<Rightarrow> (real \<times> real) \<times> real" where
  "draw_values self = (lon_colat self, kappa self)"

definition random :: "VonMisesFisher \<Rightarrow> nat option \<Rightarrow> rng \<Rightarrow> py_error + (real list list \<times> rng)" where
  "random self size_arg g =
     (let (lon_colat_v, kappa_v) = draw_values self;
          rotation_matrix =
            construct_euler_rotation_matrix 0 (snd lon_colat_v * d2r) (fst lon_colat_v * d2r);
          (cartesian_samples, g') = cartesian_sample_generator rotation_matrix kappa_v size_arg g
      in case fromiter (map (\<lambda>s. arccos (s ! 2 / sqrt (vdot s s))) cartesian_samples) size_arg of
           Inl e \<Rightarrow> Inl e
         | Inr colat_samples \<Rightarrow>
             (case fromiter (map (\<lambda>s. arctan2 (s ! 1) (s ! 0)) cartesian_samples) size_arg of
                Inl e \<Rightarrow> Inl e
              | Inr lon_samples \<Rightarrow>
                  Inr (map (map (\<lambda>v. v * r2d)) (np_transpose [lon_samples, colat_samples]), g')))"

subsection \<open>The log-density\<close>

text \<open>
  The argument of \<open>logp\<close> is the tensor in row-major order. \<^verbatim>\<open>reshape(-1, 2)\<close> cuts it
  into rows of two and fails on an odd number of entries.
\<close>

fun rows2 :: "real list \<Rightarrow> real list list" where
  "rows2 (a # b # xs) = [a, b] # rows2 xs"
| "rows2 xs = []"

definition reshape2 :: "real list \<Rightarrow> py_error + real list list" where
  "reshape2 xs = (if even (length xs) then Inr (rows2 xs) else Inl ValueError)"

text \<open>A log-density is a number or \<^verbatim>\<open>-np.inf\<close>.\<close>

datatype logprob = Finite real | MinusInf

definition expm1 :: "real \<Rightarrow> real" where
  "expm1 x = exp x - 1"

text \<open>
  \<^verbatim>\<open>theano.tensor.switch\<close> and pymc3's \<^verbatim>\<open>bound\<close>, here with conditions that are scalars
  and values that are a vector and a scalar: the scalars are broadcast along the vector.
  \<^verbatim>\<open>bound(logp, *conditions)\<close> is \<^verbatim>\<open>switch(alltrue(conditions), logp, -inf)\<close>.
\<close>

definition switch :: "bool \<Rightarrow> real list \<Rightarrow> real \<Rightarrow> real list" where
  "switch c xs s = (if c then xs else map (\<lambda>_. s) xs)"

definition bound :: "real list \<Rightarrow> bool list \<Rightarrow> logprob list" where
  "bound lp conditions = (if list_all id conditions then map Finite lp else map (\<lambda>_. MinusInf) lp)"

text \<open>The unit vectors of the rows of \<open>lon_colat_r\<close> (radians), one row per input pair.\<close>

definition point :: "real list list \<Rightarrow> real list list" where
  "point lon_colat_r =
     np_transpose
       [map2 (\<lambda>c l. sin c * cos l) (column lon_colat_r 1) (column lon_colat_r 0),
        map2 (\<lambda>c l. sin c * sin l) (column lon_colat_r 1) (column lon_colat_r 0),
        map cos (column lon_colat_r 1)]"

definition logp :: "VonMisesFisher \<Rightarrow> real list \<Rightarrow> py_error + logprob list" where
  "logp self lon_colat_arg =
     (case reshape2 (map (\<lambda>v. v * d2r) lon_colat_arg) of
        Inl e \<Rightarrow> Inl e
      | Inr lon_colat_r \<Rightarrow>
          Inr (bound
                (switch (eval_variable (tensor_ge (kappa self) eps))
                   (map (\<lambda>d. ln (- kappa self / (2 * pi * expm1 (- 2 * kappa self)))
                              + kappa self * (d - 1))
                      (np_dot_vec (point lon_colat_r) (mu self)))
                   (ln (1 / 4 / pi)))
                [list_all (\<lambda>c. c \<ge> 0) (column lon_colat_r 1),
                 list_all (\<lambda>c. c \<le> pi) (column lon_colat_r 1)]))"

subsection \<open>Notions of the specification\<close>

text \<open>
  A batch of \<open>(longitude, colatitude)\<close> pairs in degrees and the tensor that holds it,
  the unit vector of a pair, and the closed form of the log-density that the
  specification gives for one pair.
\<close>

definition flatten_pairs :: "(real \<times> real) list \<Rightarrow> real list" where
  "flatten_pairs ps = concat (map (\<lambda>p. [fst p, snd p]) ps)"

definition unit_vector :: "real \<times> real \<Rightarrow> real list" where
  "unit_vector p =
     [sin (snd p * d2r) * cos (fst p * d2r), sin (snd p * d2r) * sin (fst p * d2r), cos (snd p * d2r)]"

definition closed_form :: "real \<Rightarrow> real list \<Rightarrow> real \<times> real \<Rightarrow> real" where
  "closed_form k m p =
     (if k \<ge> eps then ln (- k / (2 * pi * (exp (- 2 * k) - 1))) + k * (vdot (unit_vector p) m - 1)
      else ln (1 / (4 * pi)))"

text \<open>The distribution with concentration \<open>k\<close> whose mean direction is the north pole.\<close>

definition pole_vmf :: "real \<Rightarrow> VonMisesFisher" where
  "pole_vmf k = \<lparr>lon_colat = (0, 0), mu = [0, 0, 1], kappa = k,
                 median = (0, 0), mode = (0, 0), mean = (0, 0)\<rparr>"



section \<open>Properties\<close>

subsection \<open>Arrays\<close>

lemma upt3: "[0..<3] = [0, 1, 2]"
  by (simp add: upt_rec)

lemma np_transpose3:
  assumes "length ys = length xs" "length zs = length xs"
  shows "np_transpose [xs, ys, zs] = map (\<lambda>i. [xs ! i, ys ! i, zs ! i]) [0..<length xs]"
  by (simp add: np_transpose_def ncols_def column_def)

lemma map_upt_nth: "map (\<lambda>i. f (xs ! i)) [0..<length xs] = map f xs"
  by (simp add: map_equality_iff)

lemma rows2_flatten:
  "rows2 (map (\<lambda>v. v * c) (flatten_pairs ps)) = map (\<lambda>p. [fst p * c, snd p * c]) ps"
  by (induction ps) (simp_all add: flatten_pairs_def)

lemma length_flatten: "length (flatten_pairs ps) = 2 * length ps"
  by (induction ps) (simp_all add: flatten_pairs_def)

lemma reshape2_flatten:
  "reshape2 (map (\<lambda>v. v * c) (flatten_pairs ps)) = Inr (map (\<lambda>p. [fst p * c, snd p * c]) ps)"
  by (simp add: reshape2_def rows2_flatten length_flatten)

lemma column_rows:
  "column (map (\<lambda>p. [fst p * c, snd p * c]) ps) 0 = map (\<lambda>p. fst p * c) ps"
  "column (map (\<lambda>p. [fst p * c, snd p * c]) ps) 1 = map (\<lambda>p. snd p * c) ps"
  by (simp_all add: column_def)

subsection \<open>Degrees and radians\<close>

lemma d2r_pos: "0 < d2r"
  by (simp add: d2r_def)

lemma d2r_nonneg_iff: "0 \<le> x * d2r \<longleftrightarrow> 0 \<le> x"
proof -
  have "0 \<le> x * d2r \<longleftrightarrow> 0 * d2r \<le> x * d2r"
    by simp
  also have "\<dots> \<longleftrightarrow> 0 \<le> x"
    by (rule mult_le_cancel_right_pos) (rule d2r_pos)
  finally show ?thesis .
qed

lemma d2r_le_pi_iff: "x * d2r \<le> pi \<longleftrightarrow> x \<le> 180"
proof -
  have "x * d2r \<le> pi \<longleftrightarrow> x * (pi / 180) \<le> 180 * (pi / 180)"
    by (simp add: d2r_def)
  also have "\<dots> \<longleftrightarrow> x \<le> 180"
    by (rule mult_le_cancel_right_pos) simp
  finally show ?thesis .
qed

lemma colat_ge:
  "list_all (\<lambda>c. c \<ge> 0) (map (\<lambda>p. snd p * d2r) ps) = list_all (\<lambda>p. 0 \<le> snd p) ps"
  by (simp add: list_all_iff d2r_nonneg_iff)

lemma colat_le:
  "list_all (\<lambda>c. c \<le> pi) (map (\<lambda>p. snd p * d2r) ps) = list_all (\<lambda>p. snd p \<le> 180) ps"
  by (simp add: list_all_iff d2r_le_pi_iff)

subsection \<open>The constructor\<close>

lemma init_Inr:
  "init lc k = Inr \<lparr>lon_colat = lc, mu = unit_vector lc, kappa = k,
                     median = lc, mode = lc, mean = lc\<rparr>"
  by (simp add: init_def tensor_ge_def unit_vector_def Let_def)

lemma init_fields:
  assumes "init lc k = Inr self"
  shows "mu self = unit_vector lc" and "kappa self = k" and "lon_colat self = lc"
  using assms by (auto simp: init_Inr)

lemma init_pole: "init (0, 0) k = Inr (pole_vmf k)"
  by (simp add: init_Inr pole_vmf_def unit_vector_def)

subsection \<open>The log-density of a batch\<close>

lemma point_rows:
  "point (map (\<lambda>p. [fst p * d2r, snd p * d2r]) ps) = map unit_vector ps"
proof -
  let ?rows = "map (\<lambda>p. [fst p * d2r, snd p * d2r]) ps"
  let ?c = "map (\<lambda>p. snd p * d2r) ps" and ?l = "map (\<lambda>p. fst p * d2r) ps"
  have "point ?rows = np_transpose
       [map2 (\<lambda>c l. sin c * cos l) ?c ?l, map2 (\<lambda>c l. sin c * sin l) ?c ?l, map cos ?c]"
    unfolding point_def column_rows ..
  also have "\<dots> = map (\<lambda>i. unit_vector (ps ! i)) [0..<length ps]"
    by (subst np_transpose3) (simp_all add: unit_vector_def)
  also have "\<dots> = map unit_vector ps"
    by (rule map_upt_nth)
  finally show ?thesis .
qed

lemma logp_values:
  "switch (eval_variable (tensor_ge k eps))
      (map (\<lambda>d. ln (- k / (2 * pi * expm1 (- 2 * k))) + k * (d - 1))
         (np_dot_vec (map unit_vector ps) m))
      (ln (1 / 4 / pi)) = map (closed_form k m) ps"
  by (simp add: switch_def tensor_ge_def expm1_def np_dot_vec_def closed_form_def)

lemma logp_flatten:
  "logp self (flatten_pairs ps) =
     Inr (bound (map (closed_form (kappa self) (mu self)) ps)
            [list_all (\<lambda>p. 0 \<le> snd p) ps, list_all (\<lambda>p. snd p \<le> 180) ps])"
proof -
  let ?rows = "map (\<lambda>p. [fst p * d2r, snd p * d2r]) ps"
  have c1: "column ?rows 1 = map (\<lambda>p. snd p * d2r) ps"
    by (rule column_rows)
  show ?thesis
    by (simp only: logp_def reshape2_flatten sum.case point_rows logp_values c1 colat_ge colat_le)
qed

text \<open>
  C1. For a batch of pairs whose colatitudes all lie in \<open>[0, 180]\<close> degrees, \<open>logp\<close>
  returns for each pair the closed form chosen by the comparison of kappa with \<open>eps\<close>:
  for \<open>kappa \<ge> eps\<close> the value \<open>ln (- kappa / (2\<pi> (exp (- 2 kappa) - 1))) + kappa (dot - 1)\<close>,
  where \<open>dot\<close> is the product of the unit vector of the pair with the unit vector of the
  mean direction stored at construction, and for \<open>kappa < eps\<close> the constant
  \<open>ln (1 / (4\<pi>))\<close>.
\<close>

theorem logp_closed_form_in_support:
  assumes "init mean_dir k = Inr self"
    and "\<forall>p \<in> set ps. 0 \<le> snd p \<and> snd p \<le> 180"
  shows "logp self (flatten_pairs ps) =
     Inr (map (\<lambda>p. Finite
            (if k \<ge> eps
             then ln (- k / (2 * pi * (exp (- 2 * k) - 1)))
                  + k * (vdot (unit_vector p) (unit_vector mean_dir) - 1)
             else ln (1 / (4 * pi)))) ps)"
proof -
  have "list_all (\<lambda>p. 0 \<le> snd p) ps" and "list_all (\<lambda>p. snd p \<le> 180) ps"
    using assms(2) by (simp_all add: list_all_iff)
  then have "logp self (flatten_pairs ps) = Inr (map (Finite \<circ> closed_form k (unit_vector mean_dir)) ps)"
    by (simp add: logp_flatten bound_def init_fields [OF assms(1)])
  then show ?thesis
    by (simp add: closed_form_def o_def)
qed

theorem logp_closed_form_in_support_witness:
  "logp (pole_vmf 10) [0, 0] = Inr [Finite (ln (- 10 / (2 * pi * (exp (- 20) - 1))))]"
  using logp_closed_form_in_support [OF init_pole, of "[(0, 0)]" 10]
  by (simp add: flatten_pairs_def unit_vector_def vdot_def eps_def)

text \<open>
  C3, as the specification states it, asks for a mask per input. The two conditions given
  to \<open>bound\<close> are reductions over the whole batch, so one colatitude outside the support
  masks every entry: here the pair \<open>(0, 90)\<close> is in the support and its entry is
  \<^verbatim>\<open>-inf\<close>, because the pair \<open>(0, 190)\<close> of the same batch is not.
\<close>

theorem logp_in_support_pair_masked:
  "init (0, 0) 1 = Inr (pole_vmf 1) \<and>
   logp (pole_vmf 1) [0, 90, 0, 190] = Inr [MinusInf, MinusInf]"
proof -
  have "logp (pole_vmf 1) (flatten_pairs [(0, 90), (0, 190)]) = Inr [MinusInf, MinusInf]"
    by (simp add: logp_flatten bound_def)
  then show ?thesis
    by (simp add: init_pole flatten_pairs_def)
qed

text \<open>
  C3, amended. \<open>logp\<close> masks by batch: when every colatitude of the batch lies in
  \<open>[0, 180]\<close> degrees each entry is the finite closed form of its pair, and when at least
  one colatitude lies outside, every entry of the result is \<^verbatim>\<open>-inf\<close>.
\<close>

theorem logp_masks_whole_batch:
  "logp self (flatten_pairs ps) =
     Inr (if list_all (\<lambda>p. 0 \<le> snd p \<and> snd p \<le> 180) ps
          then map (\<lambda>p. Finite (closed_form (kappa self) (mu self) p)) ps
          else map (\<lambda>p. MinusInf) ps)"
  by (auto simp add: logp_flatten bound_def list_all_iff)

theorem logp_masks_whole_batch_witness:
  "logp (pole_vmf 0) [0, 90, 0, 45] = Inr [Finite (ln (1 / (4 * pi))), Finite (ln (1 / (4 * pi)))]"
  using logp_masks_whole_batch [of "pole_vmf 0" "[(0, 90), (0, 45)]"]
  by (simp add: flatten_pairs_def closed_form_def pole_vmf_def eps_def)

subsection \<open>Construction\<close>

text \<open>
  C4. The specification asks that a negative kappa fails at construction. The assertion
  of the constructor tests the truth value of the symbolic comparison, which is true for
  every kappa, so the constructor accepts \<open>kappa = -1\<close>.
\<close>

theorem init_accepts_negative_kappa:
  "init (0, 0) (- 1) = Inr (pole_vmf (- 1))"
  by (rule init_pole)

lemma sphere_point_algebra:
  fixes s c cl sl :: real
  shows "(s * cl) * (s * cl) + (s * sl) * (s * sl) + c * c = (s * s) * (cl * cl + sl * sl) + c * c"
  by (simp add: algebra_simps)

lemma sphere_point_norm:
  fixes c l :: real
  shows "(sin c * cos l) * (sin c * cos l) + (sin c * sin l) * (sin c * sin l) + cos c * cos c = 1"
proof -
  have "(sin c * cos l) * (sin c * cos l) + (sin c * sin l) * (sin c * sin l) + cos c * cos c
      = (sin c * sin c) * (cos l * cos l + sin l * sin l) + cos c * cos c"
    by (rule sphere_point_algebra)
  also have "\<dots> = sin c * sin c + cos c * cos c"
    by (simp only: sin_cos_squared_add3 mult_1_right)
  also have "\<dots> = 1"
    using sin_cos_squared_add3 [of c] by (simp only: add.commute)
  finally show ?thesis .
qed


lemma cauchy_schwarz3:
  fixes a b c x y z :: real
  assumes "a * a + b * b + c * c = 1" and "x * x + y * y + z * z = 1"
  shows "\<bar>a * x + b * y + c * z\<bar> \<le> 1"
proof -
  have "(a * x + b * y + c * z)\<^sup>2 + ((a * y - b * x)\<^sup>2 + (a * z - c * x)\<^sup>2 + (b * z - c * y)\<^sup>2)
      = (a * a + b * b + c * c) * (x * x + y * y + z * z)"
    by (simp add: power2_eq_square algebra_simps)
  also have "\<dots> = 1"
    by (simp only: assms mult_1)
  finally have e: "(a * x + b * y + c * z)\<^sup>2
      + ((a * y - b * x)\<^sup>2 + (a * z - c * x)\<^sup>2 + (b * z - c * y)\<^sup>2) = 1" .
  have "0 \<le> (a * y - b * x)\<^sup>2 + (a * z - c * x)\<^sup>2 + (b * z - c * y)\<^sup>2"
    by simp
  with e have "(a * x + b * y + c * z)\<^sup>2 \<le> 1"
    by linarith
  then have "(a * x + b * y + c * z)\<^sup>2 \<le> 1\<^sup>2"
    by simp
  then show ?thesis
    using abs_le_square_iff [of "a * x + b * y + c * z" 1] by simp
qed

text \<open>
  In exact arithmetic the vector \<open>mu\<close> stored by the constructor is a unit vector for
  every pair \<open>(longitude, colatitude)\<close>, in the support or not, and its product with any
  unit vector lies in \<open>[-1, 1]\<close>. This is a fact about the real numbers only: the source
  computes the three products in float64, where the sum of the squares is 1 up to rounding
  and not exactly, so the lemma says nothing about the last digit of the stored floats.
\<close>

lemma init_mu_unit_in_exact_arithmetic:
  assumes "init lc k = Inr self"
  shows "length (mu self) = 3
       \<and> (mu self ! 0)\<^sup>2 + (mu self ! 1)\<^sup>2 + (mu self ! 2)\<^sup>2 = 1
       \<and> (\<forall>a b c. a * a + b * b + c * c = 1 \<longrightarrow> \<bar>vdot [a, b, c] (mu self)\<bar> \<le> 1)"
proof -
  let ?c = "snd lc * d2r" and ?l = "fst lc * d2r"
  have m: "mu self = [sin ?c * cos ?l, sin ?c * sin ?l, cos ?c]"
    using init_fields(1) [OF assms] by (simp add: unit_vector_def)
  have n: "(sin ?c * cos ?l) * (sin ?c * cos ?l) + (sin ?c * sin ?l) * (sin ?c * sin ?l) + cos ?c * cos ?c = 1"
    by (rule sphere_point_norm)
  have "\<bar>vdot [a, b, c] (mu self)\<bar> \<le> 1" if "a * a + b * b + c * c = 1" for a b c
    using cauchy_schwarz3 [OF that n] by (simp add: m vdot_def add.assoc)
  moreover have "(mu self ! 0)\<^sup>2 + (mu self ! 1)\<^sup>2 + (mu self ! 2)\<^sup>2 = 1"
    using n by (simp add: m power2_eq_square)
  ultimately show ?thesis
    by (simp add: m)
qed

subsection \<open>The rotation matrix\<close>

lemma euler_entries:
  "construct_euler_rotation_matrix a b g =
    [[cos g * (cos b * cos a) - sin g * sin a, - (cos g * (cos b * sin a)) - sin g * cos a, cos g * sin b],
     [sin g * (cos b * cos a) + cos g * sin a, cos g * cos a - sin g * (cos b * sin a), sin g * sin b],
     [- (sin b * cos a), sin b * sin a, cos b]]"
  by (simp add: construct_euler_rotation_matrix_def np_dot_def ncols_def column_def vdot_def upt3 algebra_simps)

text \<open>
  C6. For all angles \<open>alpha\<close>, \<open>beta\<close>, \<open>gamma\<close> the function returns the product
  \<open>Rz gamma \<cdot> Ry beta \<cdot> Rz alpha\<close>; it is a total function of its three arguments.
\<close>

theorem euler_matrix_is_zyz_product:
  "construct_euler_rotation_matrix alpha beta gamma =
     matmul3 (Rz gamma) (matmul3 (Ry beta) (Rz alpha))"
  by (simp add: euler_entries matmul3_def Rz_def Ry_def upt3 lessThan_nat_numeral lessThan_Suc algebra_simps)

subsection \<open>Sampling: angles and the coordinates before the rotation\<close>






lemma r2d_d2r: "x * r2d * d2r = x"
  by (simp add: r2d_def d2r_def)

lemma cos_arctan2:
  assumes "x \<noteq> 0 \<or> y \<noteq> 0"
  shows "cos (arctan2 y x) = x / sqrt (x * x + y * y)"
    and "sin (arctan2 y x) = y / sqrt (x * x + y * y)"
proof -
  have pos: "cos (arctan (y / x)) = x / sqrt (x * x + y * y)
           \<and> sin (arctan (y / x)) = y / sqrt (x * x + y * y)" if "0 < x"
  proof -
    have "1 + (y / x)\<^sup>2 = (x * x + y * y) / (x * x)"
      using that by (simp add: power2_eq_square field_simps)
    then have "sqrt (1 + (y / x)\<^sup>2) = sqrt (x * x + y * y) / x"
      using that by (simp add: real_sqrt_divide)
    then show ?thesis
      using that by (simp add: cos_arctan sin_arctan)
  qed
  have neg: "cos (arctan (y / x)) = - x / sqrt (x * x + y * y)
           \<and> sin (arctan (y / x)) = - y / sqrt (x * x + y * y)" if "x < 0"
  proof -
    have "1 + (y / x)\<^sup>2 = (x * x + y * y) / (x * x)"
      using that by (simp add: power2_eq_square field_simps)
    then have "sqrt (1 + (y / x)\<^sup>2) = sqrt (x * x + y * y) / (- x)"
      using that by (simp add: real_sqrt_divide)
    then show ?thesis
      using that by (simp add: cos_arctan sin_arctan)
  qed
  consider "0 < x" | "x < 0" | "x = 0" "0 < y" | "x = 0" "y < 0"
    using assms by linarith
  then have "cos (arctan2 y x) = x / sqrt (x * x + y * y)
           \<and> sin (arctan2 y x) = y / sqrt (x * x + y * y)"
  proof cases
    case 1
    then show ?thesis using pos by (simp add: arctan2_def)
  next
    case 2
    then show ?thesis using neg by (simp add: arctan2_def)
  next
    case 3
    then show ?thesis by (simp add: arctan2_def)
  next
    case 4
    then show ?thesis by (simp add: arctan2_def)
  qed
  then show "cos (arctan2 y x) = x / sqrt (x * x + y * y)"
    and "sin (arctan2 y x) = y / sqrt (x * x + y * y)"
    by simp_all
qed

subsection \<open>The round trip between a unit vector and its angles\<close>

lemma round_trip_unit_vector:
  assumes "x * x + y * y + z * z = 1"
  shows "unit_vector (arctan2 y x * r2d, arccos z * r2d) = [x, y, z]"
proof -
  have zz: "z * z \<le> 1"
  proof -
    have "0 \<le> x * x + y * y" by simp
    with assms show ?thesis by linarith
  qed
  then have "z\<^sup>2 \<le> 1"
    by (simp add: power2_eq_square)
  then have az: "\<bar>z\<bar> \<le> 1"
    by (simp add: abs_square_le_1)
  have c: "cos (arccos z) = z"
    using az by (rule cos_arccos_abs)
  have "1 - z\<^sup>2 = x * x + y * y"
    using assms by (simp add: power2_eq_square)
  then have s: "sin (arccos z) = sqrt (x * x + y * y)"
    using sin_arccos_abs [OF az] by simp
  have xy: "sin (arccos z) * cos (arctan2 y x) = x \<and> sin (arccos z) * sin (arctan2 y x) = y"
  proof (cases "x = 0 \<and> y = 0")
    case True
    then show ?thesis by (simp add: s)
  next
    case False
    then have nz: "x \<noteq> 0 \<or> y \<noteq> 0" by simp
    have "x * x + y * y \<noteq> 0"
      using False by (simp add: sum_squares_eq_zero_iff)
    then have "sqrt (x * x + y * y) \<noteq> 0"
      by simp
    then show ?thesis
      by (simp add: s cos_arctan2 [OF nz])
  qed
  show ?thesis
    by (simp add: unit_vector_def r2d_d2r c xy)
qed

lemma normalised_z:
  assumes "x * x + y * y + z * z = 1"
  shows "z / sqrt (vdot [x, y, z] [x, y, z]) = z"
  using assms by (simp add: vdot_def add.assoc)

text \<open>
  C8. A unit vector \<open>(x, y, z)\<close> is turned into angles in degrees as \<open>random\<close> does
  (longitude \<open>arctan2 y x\<close>, colatitude the arc cosine of the normalised \<open>z\<close>) and the pair
  is given to the conversion of \<open>logp\<close>: the conversion to radians gives back the angles
  \<open>arctan2 y x\<close> and \<open>arccos z\<close>, and their unit vector is \<open>(x, y, z)\<close> again. This holds
  for every unit vector, whatever the range of its angles.
\<close>

theorem cartesian_round_trip:
  assumes "x * x + y * y + z * z = 1"
  shows "reshape2 (map (\<lambda>v. v * d2r)
            [arctan2 y x * r2d, arccos (z / sqrt (vdot [x, y, z] [x, y, z])) * r2d])
           = Inr [[arctan2 y x, arccos z]]
       \<and> point [[arctan2 y x, arccos z]] = [[x, y, z]]"
proof -
  let ?p = "(arctan2 y x * r2d, arccos z * r2d)"
  have "point (map (\<lambda>p. [fst p * d2r, snd p * d2r]) [?p]) = map unit_vector [?p]"
    by (rule point_rows)
  then have "point [[arctan2 y x, arccos z]] = [[x, y, z]]"
    by (simp add: r2d_d2r round_trip_unit_vector [OF assms])
  then show ?thesis
    by (simp add: reshape2_def r2d_d2r normalised_z [OF assms])
qed

theorem cartesian_round_trip_witness:
  "reshape2 (map (\<lambda>v. v * d2r)
      [arctan2 0 0 * r2d, arccos (1 / sqrt (vdot [0, 0, 1] [0, 0, 1])) * r2d])
     = Inr [[arctan2 0 0, arccos 1]]
   \<and> point [[arctan2 0 0, arccos 1]] = [[0, 0, 1]]"
  using cartesian_round_trip [of 0 0 1] by simp

subsection \<open>Sampling: the arrays of the generator\<close>


lemma column3: "column [xs, ys, zs] j = [xs ! j, ys ! j, zs ! j]"
  by (simp add: column_def)



lemma map_upt_zip:
  assumes "length ys = length xs"
  shows "map (\<lambda>i. f (xs ! i) (ys ! i)) [0..<length xs] = map2 f xs ys"
  using assms by (intro nth_equalityI) simp_all

lemma sample_rows:
  assumes "length phi = length zeta"
  shows "np_transpose
           [map2 (\<lambda>z p. sqrt (1 - z * z) * cos p) (map f zeta) phi,
            map2 (\<lambda>z p. sqrt (1 - z * z) * sin p) (map f zeta) phi,
            map f zeta]
       = map2 (\<lambda>u p. [sqrt (1 - f u * f u) * cos p, sqrt (1 - f u * f u) * sin p, f u]) zeta phi"
proof -
  let ?z = "map f zeta"
  let ?x = "map2 (\<lambda>z p. sqrt (1 - z * z) * cos p) ?z phi"
  let ?y = "map2 (\<lambda>z p. sqrt (1 - z * z) * sin p) ?z phi"
  let ?F = "\<lambda>u p. [sqrt (1 - f u * f u) * cos p, sqrt (1 - f u * f u) * sin p, f u]"
  have len: "length ?x = length zeta" "length ?y = length ?x" "length ?z = length ?x"
    using assms by simp_all
  have row: "[?x ! i, ?y ! i, ?z ! i] = ?F (zeta ! i) (phi ! i)" if "i < length zeta" for i
    using that assms by simp
  have "np_transpose [?x, ?y, ?z] = map (\<lambda>i. [?x ! i, ?y ! i, ?z ! i]) [0..<length ?x]"
    using len(2,3) by (rule np_transpose3)
  also have "\<dots> = map (\<lambda>i. [?x ! i, ?y ! i, ?z ! i]) [0..<length zeta]"
    by (simp only: len(1))
  also have "\<dots> = map (\<lambda>i. ?F (zeta ! i) (phi ! i)) [0..<length zeta]"
    by (rule map_cong [OF refl]) (simp only: row atLeastLessThan_iff set_upt)
  also have "\<dots> = map2 ?F zeta phi"
    using assms by (rule map_upt_zip)
  finally show ?thesis .
qed


lemma unrotated_samples_rows:
  assumes "length phi = length zeta"
  shows "np_transpose (unrotated_samples k zeta phi) =
     map2 (\<lambda>u p.
        let z = (if k < eps then 2 * u - 1 else 1 + 1 / k * ln (u + (1 - u) * exp (- 2 * k)))
        in [sqrt (1 - z * z) * cos p, sqrt (1 - z * z) * sin p, z]) zeta phi"
proof (cases "k < eps")
  case True
  then have "unrotated_samples k zeta phi =
      [map2 (\<lambda>z p. sqrt (1 - z * z) * cos p) (map (\<lambda>u. 2 * u - 1) zeta) phi,
       map2 (\<lambda>z p. sqrt (1 - z * z) * sin p) (map (\<lambda>u. 2 * u - 1) zeta) phi,
       map (\<lambda>u. 2 * u - 1) zeta]"
    by (simp only: unrotated_samples_def Let_def if_True)
  then show ?thesis
    using True by (simp only: sample_rows [OF assms] Let_def if_True)
next
  case False
  let ?f = "\<lambda>u. 1 + 1 / k * ln (u + (1 - u) * exp (- 2 * k))"
  from False have "unrotated_samples k zeta phi =
      [map2 (\<lambda>z p. sqrt (1 - z * z) * cos p) (map ?f zeta) phi,
       map2 (\<lambda>z p. sqrt (1 - z * z) * sin p) (map ?f zeta) phi,
       map ?f zeta]"
    by (simp only: unrotated_samples_def Let_def if_False)
  then show ?thesis
    using False by (simp only: sample_rows [OF assms] Let_def if_False)
qed







lemma fromiter_all: "fromiter xs (Some (length xs)) = Inr xs"
  by (simp add: fromiter_def)





subsection \<open>Sampling: the result of random\<close>



lemma random_None: "random self None g = Inl TypeError"
  by (simp add: random_def fromiter_def Let_def split: prod.splits)






lemma uniform_rvs_length:
  "length (fst (uniform_rvs loc scale size_arg g)) = (case size_arg of None \<Rightarrow> 1 | Some n \<Rightarrow> n)"
  by (simp add: uniform_rvs_def Let_def)

text \<open>
  C2. In the sample generator the draws \<open>zeta\<close> are standard uniform variates and the
  draws \<open>phi\<close> are uniform variates scaled by \<open>2\<pi>\<close>, as many of the one as of the other.
  Before the rotation, the sample made from a draw \<open>u\<close> of \<open>zeta\<close> and a draw \<open>p\<close> of
  \<open>phi\<close> has the z coordinate \<open>2u - 1\<close> when \<open>kappa < eps\<close> and
  \<open>1 + (1 / kappa) ln (u + (1 - u) exp (- 2 kappa))\<close> otherwise, and the x and y coordinates
  \<open>sqrt (1 - z\<^sup>2) cos p\<close> and \<open>sqrt (1 - z\<^sup>2) sin p\<close>; the generator returns these samples
  multiplied by the rotation matrix.
\<close>

theorem generator_coordinates_before_rotation:
  "let (zeta, g1) = uniform_rvs 0 1 size_arg g;
       (phi, g2) = uniform_rvs 0 (2 * pi) size_arg g1;
       U = unrotated_samples k zeta phi
   in cartesian_sample_generator R k size_arg g = (np_transpose (np_dot R U), g2)
    \<and> length phi = length zeta
    \<and> np_transpose U =
        map2 (\<lambda>u p.
          let z = (if k < eps then 2 * u - 1 else 1 + 1 / k * ln (u + (1 - u) * exp (- 2 * k)))
          in [sqrt (1 - z * z) * cos p, sqrt (1 - z * z) * sin p, z]) zeta phi"
proof -
  obtain zeta g1 where z: "uniform_rvs 0 1 size_arg g = (zeta, g1)"
    by (cases "uniform_rvs 0 1 size_arg g")
  obtain phi g2 where p: "uniform_rvs 0 (2 * pi) size_arg g1 = (phi, g2)"
    by (cases "uniform_rvs 0 (2 * pi) size_arg g1")
  have "length zeta = (case size_arg of None \<Rightarrow> 1 | Some n \<Rightarrow> n)"
    using uniform_rvs_length [of 0 1 size_arg g] by (simp add: z)
  moreover have "length phi = (case size_arg of None \<Rightarrow> 1 | Some n \<Rightarrow> n)"
    using uniform_rvs_length [of 0 "2 * pi" size_arg g1] by (simp add: p)
  ultimately have l: "length phi = length zeta"
    by simp
  have "cartesian_sample_generator R k size_arg g
      = (np_transpose (np_dot R (unrotated_samples k zeta phi)), g2)"
    by (simp add: cartesian_sample_generator_def z p)
  then show ?thesis
    using l unrotated_samples_rows [OF l, of k] by (simp only: z p prod.case Let_def)
qed

text \<open>
  C5. The specification asks for a single pair when \<open>size\<close> is \<^verbatim>\<open>None\<close>. The generator
  handles \<^verbatim>\<open>None\<close>, but \<open>random\<close> then passes \<^verbatim>\<open>count=size\<close> to \<^verbatim>\<open>np.fromiter\<close>, which
  takes an integer only: the call raises \<^verbatim>\<open>TypeError\<close> and no pair is returned.
\<close>

theorem random_size_None_raises:
  "random self None g = Inl TypeError"
  by (rule random_None)


subsection \<open>Sampling: the samples lie on the unit sphere\<close>










subsection \<open>Sampling: the ranges of the returned angles\<close>




end
